theory Spec2Isabelle
  imports Complex_Main
begin

section \<open>Values, documents and errors\<close>

text \<open>
  The services work on Python numbers, strings and dictionaries. Numbers are embedded as
  exact reals: an \<open>int\<close> and a \<open>float\<close> of the same value are the same number (as
  \<open>80 == 80.0\<close> in Python), and the binary rounding error of float arithmetic is not
  part of the model. A stored profile, an update map and a metrics dictionary are maps
  from field names to values.
\<close>

datatype py_error = KeyError | TypeError | AttributeError | ZeroDivisionError

datatype pyval =
    PNone
  | PBool bool
  | PNum real
  | PStr string
  | PList "pyval list"
  | PTime int

type_synonym doc = "string \<rightharpoonup> pyval"

definition and_then :: "'e + 'a \<Rightarrow> ('a \<Rightarrow> 'e + 'b) \<Rightarrow> 'e + 'b" where
  "and_then r f = (case r of Inl e \<Rightarrow> Inl e | Inr v \<Rightarrow> f v)"

text \<open>\<open>d[k]\<close> on a dictionary: KeyError when the key is absent.\<close>

definition get_item :: "doc \<Rightarrow> string \<Rightarrow> py_error + pyval" where
  "get_item d k = (case d k of None \<Rightarrow> Inl KeyError | Some v \<Rightarrow> Inr v)"

text \<open>\<open>d.get(k)\<close>: None when the key is absent.\<close>

definition get_or_none :: "doc \<Rightarrow> string \<Rightarrow> pyval" where
  "get_or_none d k = (case d k of None \<Rightarrow> PNone | Some v \<Rightarrow> v)"

text \<open>
  A value used as an operand of \<open>/\<close>, \<open>*\<close>, \<open>+\<close> or \<open>-\<close> against a float: numbers
  (and booleans, which are the integers 0 and 1) take part in the arithmetic, every other
  value makes the expression raise TypeError.
\<close>

fun as_num :: "pyval \<Rightarrow> py_error + real" where
  "as_num (PNum r) = Inr r"
| "as_num (PBool b) = Inr (if b then 1 else 0)"
| "as_num v = Inl TypeError"

text \<open>Truth value of an object, as \<open>or\<close> tests it.\<close>

fun truthy :: "pyval \<Rightarrow> bool" where
  "truthy PNone = False"
| "truthy (PBool b) = b"
| "truthy (PNum r) = (r \<noteq> 0)"
| "truthy (PStr s) = (s \<noteq> [])"
| "truthy (PList xs) = (xs \<noteq> [])"
| "truthy (PTime t) = True"

definition py_or :: "pyval \<Rightarrow> pyval \<Rightarrow> pyval" where
  "py_or a b = (if truthy a then a else b)"

text \<open>\<open>round(x, 2)\<close>: to the nearest hundredth, a tie going to the even neighbour.\<close>

definition round_half_even :: "real \<Rightarrow> int" where
  "round_half_even x =
     (let f = \<lfloor>x\<rfloor>; d = x - of_int f
      in if d < 1 / 2 then f else if 1 / 2 < d then f + 1 else if even f then f else f + 1)"

definition py_round2 :: "real \<Rightarrow> real" where
  "py_round2 x = of_int (round_half_even (x * 100)) / 100"

text \<open>\<open>int(x)\<close> on a float: the fractional part is dropped.\<close>

definition py_int :: "real \<Rightarrow> int" where
  "py_int x = (if 0 \<le> x then \<lfloor>x\<rfloor> else \<lceil>x\<rceil>)"

text \<open>\<open>s.lower()\<close> on the letters A to Z; no other character lowers to one of a to z.\<close>

definition lower_char :: "char \<Rightarrow> char" where
  "lower_char c =
     (case map_of (zip ''ABCDEFGHIJKLMNOPQRSTUVWXYZ'' ''abcdefghijklmnopqrstuvwxyz'') c of
        Some d \<Rightarrow> d
      | None \<Rightarrow> c)"

definition py_lower :: "string \<Rightarrow> string" where
  "py_lower s = map lower_char s"

section \<open>UserCalculationService\<close>

definition calculate_bmi :: "real \<Rightarrow> real \<Rightarrow> py_error + real" where
  "calculate_bmi weight_kg height_cm =
     (let height_m = height_cm / 100
      in if height_m ^ 2 = 0 then Inl ZeroDivisionError
         else Inr (py_round2 (weight_kg / height_m ^ 2)))"

definition get_bmi_status :: "real \<Rightarrow> string" where
  "get_bmi_status bmi =
     (if bmi < 18.5 then ''underweight''
      else if 18.5 \<le> bmi \<and> bmi < 25 then ''normal''
      else if 25 \<le> bmi \<and> bmi < 30 then ''overweight''
      else ''obese'')"

definition calculate_recommended_weight :: "real \<Rightarrow> string \<Rightarrow> real" where
  "calculate_recommended_weight height_cm bmi_status =
     (let height_m = height_cm / 100
      in if bmi_status \<in> set [''underweight''] then py_round2 (20 * height_m ^ 2)
         else if bmi_status = ''normal'' then 0
         else py_round2 (24 * height_m ^ 2))"

definition calculate_bmr :: "real \<Rightarrow> real \<Rightarrow> real \<Rightarrow> string \<Rightarrow> real" where
  "calculate_bmr weight_kg height_cm age gender =
     (if py_lower gender = ''male''
      then py_round2 (10 * weight_kg + 6.25 * height_cm - 5 * age + 5)
      else py_round2 (10 * weight_kg + 6.25 * height_cm - 5 * age - 161))"

definition activity_multipliers :: "(string \<times> real) list" where
  "activity_multipliers =
     [(''sedentary'', 1.2), (''light'', 1.375), (''moderate'', 1.55),
      (''active'', 1.725), (''very_active'', 1.9)]"

definition calculate_tdee :: "real \<Rightarrow> string \<Rightarrow> real" where
  "calculate_tdee bmr activity_level =
     (let multiplier = (case map_of activity_multipliers activity_level of
                          Some m \<Rightarrow> m | None \<Rightarrow> 1.2)
      in py_round2 (bmr * multiplier))"

definition calculate_calorie_goal :: "real \<Rightarrow> string \<Rightarrow> real \<Rightarrow> real \<Rightarrow> int" where
  "calculate_calorie_goal tdee goal target_weight_kg current_weight_kg =
     (if goal = ''lose_weight'' then
        (let weight_to_lose = current_weight_kg - target_weight_kg
         in if 10 < weight_to_lose then py_int (tdee - 750) else py_int (tdee - 500))
      else if goal = ''gain_weight'' \<or> goal = ''build_muscle'' then py_int (tdee + 400)
      else py_int tdee)"

subsection \<open>The calls of \<open>calculate_all_metrics\<close> on untyped values\<close>

text \<open>
  A profile read from the store is a dictionary of untyped values, so each call made by
  \<open>calculate_all_metrics\<close> can raise where a value has the wrong type.
  \<open>gender.lower()\<close> needs a string (AttributeError otherwise) and is evaluated before
  the arithmetic on \<open>age\<close>.
\<close>

definition bmr_call :: "real \<Rightarrow> real \<Rightarrow> pyval \<Rightarrow> pyval \<Rightarrow> py_error + real" where
  "bmr_call weight_kg height_cm age gender =
     (case gender of
        PStr g \<Rightarrow> and_then (as_num age) (\<lambda>a. Inr (calculate_bmr weight_kg height_cm a g))
      | _ \<Rightarrow> Inl AttributeError)"

text \<open>
  \<open>activity_multipliers.get(activity_level, 1.2)\<close>: a list is unhashable (TypeError); a
  value that is not a string is no key of the table and takes the default.
\<close>

definition tdee_call :: "real \<Rightarrow> pyval \<Rightarrow> py_error + real" where
  "tdee_call bmr activity_level =
     (case activity_level of
        PStr a \<Rightarrow> Inr (calculate_tdee bmr a)
      | PList xs \<Rightarrow> Inl TypeError
      | _ \<Rightarrow> Inr (py_round2 (bmr * 1.2)))"

text \<open>
  The target weight is an operand only in the \<open>lose_weight\<close> branch; a goal that is not
  a string equals none of the three literals and takes the last branch.
\<close>

definition calorie_goal_call :: "real \<Rightarrow> pyval \<Rightarrow> pyval \<Rightarrow> real \<Rightarrow> py_error + int" where
  "calorie_goal_call tdee goal target_weight current_weight_kg =
     (case goal of
        PStr g \<Rightarrow>
          if g = ''lose_weight''
          then and_then (as_num target_weight)
                 (\<lambda>t. Inr (calculate_calorie_goal tdee g t current_weight_kg))
          else Inr (calculate_calorie_goal tdee g current_weight_kg current_weight_kg)
      | _ \<Rightarrow> Inr (py_int tdee))"

text \<open>Lines 103 to 126 of the service: the computation shared by both kinds of input.\<close>

definition metrics_of ::
  "pyval \<Rightarrow> pyval \<Rightarrow> pyval \<Rightarrow> pyval \<Rightarrow> pyval \<Rightarrow> pyval \<Rightarrow> pyval \<Rightarrow> py_error + doc" where
  "metrics_of weight_kg height_cm age gender activity_level goal target_weight_kg =
     and_then (as_num height_cm) (\<lambda>h.
     and_then (as_num weight_kg) (\<lambda>w.
     and_then (calculate_bmi w h) (\<lambda>bmi.
       let bmi_status = get_bmi_status bmi;
           recommended_weight = calculate_recommended_weight h bmi_status;
           recommended_weight_change =
             (if recommended_weight \<noteq> 0 then recommended_weight - w else 0)
       in
     and_then (bmr_call w h age gender) (\<lambda>bmr.
     and_then (tdee_call bmr activity_level) (\<lambda>tdee.
       let target_weight = py_or target_weight_kg weight_kg in
     and_then (calorie_goal_call tdee goal target_weight w) (\<lambda>recommended_calories.
       Inr [''bmi'' \<mapsto> PNum bmi,
            ''bmi_status'' \<mapsto> PStr bmi_status,
            ''recommended_weight_change'' \<mapsto> PNum (py_round2 recommended_weight_change),
            ''bmr'' \<mapsto> PNum bmr,
            ''tdee'' \<mapsto> PNum tdee,
            ''recommended_daily_calories'' \<mapsto> PNum (of_int recommended_calories)]))))))"

text \<open>The dictionary branch of \<open>calculate_all_metrics\<close> (a dict has no attribute \<open>weight_kg\<close>).\<close>

definition calculate_all_metrics :: "doc \<Rightarrow> py_error + doc" where
  "calculate_all_metrics user_data =
     and_then (get_item user_data ''weight_kg'') (\<lambda>weight_kg.
     and_then (get_item user_data ''height_cm'') (\<lambda>height_cm.
     and_then (get_item user_data ''age'') (\<lambda>age.
     and_then (get_item user_data ''gender'') (\<lambda>gender.
     and_then (get_item user_data ''activity_level'') (\<lambda>activity_level.
     and_then (get_item user_data ''goal'') (\<lambda>goal.
       let target_weight_kg = get_or_none user_data ''target_weight_kg''
       in metrics_of weight_kg height_cm age gender activity_level goal target_weight_kg))))))"

section \<open>The calorie goal\<close>




section \<open>The profile update route\<close>

text \<open>
  \<open>update_user_profile\<close> (routes/auth/auth.py) takes the update map of the request and the
  authenticated user's stored document. The store is an external collaborator:
  \<open>update_one\<close> with \<open>$set\<close> overrides the named top-level fields of the stored
  document and keeps the others. The model returns the document as it is persisted by
  that write, or the exception raised before the write (which the route turns into an HTTP
  500 response, nothing being written).
\<close>

definition result_field :: "py_error + doc \<Rightarrow> string \<Rightarrow> pyval option" where
  "result_field r k = (case r of Inl e \<Rightarrow> None | Inr d \<Rightarrow> d k)"

definition trigger_keys :: "string list" where
  "trigger_keys = [''weight_kg'', ''height_cm'', ''age'', ''gender'', ''activity_level'', ''goal'']"

definition calculated_fields :: "string list" where
  "calculated_fields = [''bmi'', ''bmi_status'', ''recommended_weight_change'',
     ''recommended_daily_calories'', ''bmr'', ''tdee'']"

text \<open>\<open>any(key in updates for key in [...])\<close>: membership of a key, whatever its value.\<close>

definition recalculate_metrics :: "doc \<Rightarrow> bool" where
  "recalculate_metrics updates = list_ex (\<lambda>key. updates key \<noteq> None) trigger_keys"

text \<open>
  \<open>user_data = dict(current_user)\<close>, then every key of the update that the stored document
  already has is overwritten; a key the stored document lacks is not added.
\<close>

definition merge_known :: "doc \<Rightarrow> doc \<Rightarrow> doc" where
  "merge_known user_data updates =
     (\<lambda>key. case updates key of
              None \<Rightarrow> user_data key
            | Some v \<Rightarrow> (if user_data key \<noteq> None then Some v else user_data key))"

definition update_one :: "doc \<Rightarrow> doc \<Rightarrow> doc" where
  "update_one stored fields = stored ++ fields"

definition update_user_profile :: "int \<Rightarrow> doc \<Rightarrow> doc \<Rightarrow> py_error + doc" where
  "update_user_profile now updates current_user =
     and_then (get_item current_user ''_id'') (\<lambda>user_id.
     and_then
       (if recalculate_metrics updates
        then and_then (calculate_all_metrics (merge_known current_user updates))
               (\<lambda>metrics. Inr (updates ++ metrics))
        else Inr updates) (\<lambda>updates.
       Inr (update_one current_user (updates(''updated_at'' \<mapsto> PTime now)))))"

text \<open>
  A stored profile is consistent when its calculated fields are the ones
  \<open>calculate_all_metrics\<close> computes from its own input fields.
\<close>

definition consistent :: "doc \<Rightarrow> bool" where
  "consistent profile =
     (case calculate_all_metrics profile of
        Inl e \<Rightarrow> False
      | Inr metrics \<Rightarrow> list_all (\<lambda>k. profile k = metrics k) calculated_fields)"

text \<open>A stored profile, with the calculated fields that registration computes for it.\<close>

definition stored_profile :: doc where
  "stored_profile = map_of
     [(''_id'', PStr ''65f0c0ffee'' ), (''email'', PStr ''ann@example.org''),
      (''weight_kg'', PNum 90), (''height_cm'', PNum 175), (''age'', PNum 25),
      (''gender'', PStr ''male''), (''activity_level'', PStr ''moderate''),
      (''goal'', PStr ''lose_weight''), (''target_weight_kg'', PNum 85),
      (''day_streak'', PNum 0),
      (''bmi'', PNum 29.39), (''bmi_status'', PStr ''overweight''),
      (''recommended_weight_change'', PNum (- 16.5)),
      (''recommended_daily_calories'', PNum 2404),
      (''bmr'', PNum 1873.75), (''tdee'', PNum 2904.31),
      (''updated_at'', PTime 1000)]"

section \<open>GeminiMealPlanService.create_weekly_meal_plan_model\<close>

text \<open>
  The parsed response of the generator is a dictionary from day names to JSON values. The
  pydantic models \<open>MealItem\<close>, \<open>DayMealPlan\<close> and \<open>WeeklyMealPlan\<close> validate their
  fields with library code: the validators of a meal item, of an integer field, of a float
  field and of an object id are parameters of the model (the record \<open>pydantic\<close>). What the
  function reads from its environment, the current date and time and the generated id of
  the new plan, is the record \<open>plan_env\<close>; dates are day numbers, whose weekday is
  \<open>(n + 6) mod 7\<close> with Monday 0. Every exception is raised again as a plain Exception
  with a message; the model keeps its cause.
\<close>

datatype json =
    JNull
  | JBool bool
  | JNum real
  | JStr string
  | JArr "json list"
  | JObj "(string \<times> json) list"

datatype plan_error = PlanTypeError | PlanAttributeError | ValidationError

record 'i day_meal_plan =
  breakfast :: "'i list"
  lunch :: "'i list"
  dinner :: "'i list"
  snacks :: "'i list"
  total_calories :: int
  total_protein :: real
  total_carbs :: real
  total_fat :: real

record 'i weekly_meal_plan =
  plan_id :: string
  user_id :: string
  week_start_date :: int
  monday :: "'i day_meal_plan"
  tuesday :: "'i day_meal_plan"
  wednesday :: "'i day_meal_plan"
  thursday :: "'i day_meal_plan"
  friday :: "'i day_meal_plan"
  saturday :: "'i day_meal_plan"
  sunday :: "'i day_meal_plan"
  plan_created_at :: int
  plan_updated_at :: int

record 'i pydantic =
  meal_item :: "json \<Rightarrow> plan_error + 'i"
  int_field :: "json \<Rightarrow> plan_error + int"
  float_field :: "json \<Rightarrow> plan_error + real"
  object_id :: "string \<Rightarrow> bool"

record plan_env =
  today :: int
  utcnow :: int
  new_object_id :: string

definition day_names :: "string list" where
  "day_names = [''monday'', ''tuesday'', ''wednesday'', ''thursday'', ''friday'',
                ''saturday'', ''sunday'']"

text \<open>
  \<open>d.get(k, default)\<close> on a parsed JSON object, whose keys are distinct.
\<close>

definition dict_get :: "(string \<times> json) list \<Rightarrow> string \<Rightarrow> json \<Rightarrow> json" where
  "dict_get d k dflt = (case map_of d k of None \<Rightarrow> dflt | Some v \<Rightarrow> v)"

text \<open>
  The values a \<open>for\<close> clause draws from a JSON value: the elements of a list, the
  characters of a string, the keys of an object; null, a boolean and a number are not
  iterable (TypeError).
\<close>

fun iterate :: "json \<Rightarrow> plan_error + json list" where
  "iterate (JArr xs) = Inr xs"
| "iterate (JStr s) = Inr (map (\<lambda>c. JStr [c]) s)"
| "iterate (JObj kvs) = Inr (map (\<lambda>kv. JStr (fst kv)) kvs)"
| "iterate v = Inl PlanTypeError"

text \<open>A list comprehension: the first exception ends it.\<close>

fun collect :: "('a \<Rightarrow> 'e + 'b) \<Rightarrow> 'a list \<Rightarrow> 'e + 'b list" where
  "collect f [] = Inr []"
| "collect f (x # xs) =
     and_then (f x) (\<lambda>y. and_then (collect f xs) (\<lambda>ys. Inr (y # ys)))"

text \<open>\<open>[MealItem(**meal) for meal in day_data.get(slot, [])]\<close>\<close>

definition meal_items ::
  "'i pydantic \<Rightarrow> (string \<times> json) list \<Rightarrow> string \<Rightarrow> plan_error + 'i list" where
  "meal_items P day_data slot =
     and_then (iterate (dict_get day_data slot (JArr []))) (collect (meal_item P))"

text \<open>
  The body of the loop for one day: \<open>day_data.get\<close> needs a dictionary (AttributeError
  otherwise), the four slots are converted in order, then \<open>DayMealPlan\<close> validates the
  totals, each defaulting to 0.
\<close>

definition day_plan_of :: "'i pydantic \<Rightarrow> json \<Rightarrow> plan_error + 'i day_meal_plan" where
  "day_plan_of P day_data =
     (case day_data of
        JObj d \<Rightarrow>
          and_then (meal_items P d ''breakfast'') (\<lambda>b.
          and_then (meal_items P d ''lunch'') (\<lambda>l.
          and_then (meal_items P d ''dinner'') (\<lambda>dn.
          and_then (meal_items P d ''snacks'') (\<lambda>s.
          and_then (int_field P (dict_get d ''total_calories'' (JNum 0))) (\<lambda>tc.
          and_then (float_field P (dict_get d ''total_protein'' (JNum 0))) (\<lambda>tp.
          and_then (float_field P (dict_get d ''total_carbs'' (JNum 0))) (\<lambda>tcb.
          and_then (float_field P (dict_get d ''total_fat'' (JNum 0))) (\<lambda>tf.
            Inr \<lparr>breakfast = b, lunch = l, dinner = dn, snacks = s,
                 total_calories = tc, total_protein = tp, total_carbs = tcb,
                 total_fat = tf\<rparr>))))))))
      | _ \<Rightarrow> Inl PlanAttributeError)"

text \<open>\<open>meal_plan_data.get(day_name, {})\<close>\<close>

definition day_data_of :: "(string \<rightharpoonup> json) \<Rightarrow> string \<Rightarrow> json" where
  "day_data_of meal_plan_data day_name =
     (case meal_plan_data day_name of None \<Rightarrow> JObj [] | Some v \<Rightarrow> v)"

fun convert_days ::
  "'i pydantic \<Rightarrow> (string \<rightharpoonup> json) \<Rightarrow> string list
     \<Rightarrow> plan_error + (string \<times> 'i day_meal_plan) list" where
  "convert_days P meal_plan_data [] = Inr []"
| "convert_days P meal_plan_data (day_name # rest) =
     and_then (day_plan_of P (day_data_of meal_plan_data day_name)) (\<lambda>p.
     and_then (convert_days P meal_plan_data rest) (\<lambda>days. Inr ((day_name, p) # days)))"

text \<open>A required field of \<open>WeeklyMealPlan\<close>, passed by \<open>**days\<close>.\<close>

definition required :: "(string \<times> 'a) list \<Rightarrow> string \<Rightarrow> plan_error + 'a" where
  "required kwargs k = (case map_of kwargs k of None \<Rightarrow> Inl ValidationError | Some v \<Rightarrow> Inr v)"

definition create_weekly_meal_plan_model ::
  "plan_env \<Rightarrow> 'i pydantic \<Rightarrow> string \<Rightarrow> (string \<rightharpoonup> json) \<Rightarrow> plan_error + 'i weekly_meal_plan" where
  "create_weekly_meal_plan_model env P uid meal_plan_data =
     (let days_since_monday = (today env + 6) mod 7;
          week_start = today env - days_since_monday
      in and_then (convert_days P meal_plan_data day_names) (\<lambda>days.
         if \<not> object_id P uid then Inl ValidationError
         else
         and_then (required days ''monday'') (\<lambda>mo.
         and_then (required days ''tuesday'') (\<lambda>tu.
         and_then (required days ''wednesday'') (\<lambda>we.
         and_then (required days ''thursday'') (\<lambda>th.
         and_then (required days ''friday'') (\<lambda>fr.
         and_then (required days ''saturday'') (\<lambda>sa.
         and_then (required days ''sunday'') (\<lambda>su.
           Inr \<lparr>plan_id = new_object_id env, user_id = uid, week_start_date = week_start,
                monday = mo, tuesday = tu, wednesday = we, thursday = th, friday = fr,
                saturday = sa, sunday = su,
                plan_created_at = utcnow env, plan_updated_at = utcnow env\<rparr>)))))))))"















section \<open>UserService.prepare_user_for_db\<close>

text \<open>
  The validated registration is an instance of \<open>UserRegisterModel\<close>. \<open>hash_password\<close>
  calls the bcrypt library: \<open>hashpw\<close> is a parameter, and the salt that \<open>gensalt()\<close> draws
  at random on each call is an argument.
\<close>

record user_register =
  email :: string
  username :: string
  password :: string
  first_name :: string
  last_name :: string
  date_of_birth :: int
  gender :: string
  height_cm :: real
  weight_kg :: real
  goal :: string
  target_weight_kg :: "real option"
  target_date :: "int option"
  activity_level :: string
  gym_type :: string
  day_streak :: int
  medical_conditions :: "string list option"
  allergies :: "string list option"
  medications :: "string list option"
  dietary_restrictions :: "string list option"
  daily_calorie_goal :: "int option"
  age :: "int option"
  created_at :: "int option"
  updated_at :: "int option"

definition opt_num :: "real option \<Rightarrow> pyval" where
  "opt_num x = (case x of None \<Rightarrow> PNone | Some r \<Rightarrow> PNum r)"

definition opt_int :: "int option \<Rightarrow> pyval" where
  "opt_int x = (case x of None \<Rightarrow> PNone | Some i \<Rightarrow> PNum (of_int i))"

definition opt_time :: "int option \<Rightarrow> pyval" where
  "opt_time x = (case x of None \<Rightarrow> PNone | Some t \<Rightarrow> PTime t)"

definition or_empty :: "string list option \<Rightarrow> pyval" where
  "or_empty x = (case x of None \<Rightarrow> PList [] | Some xs \<Rightarrow> PList (map PStr xs))"

definition calculate_all_metrics_model :: "user_register \<Rightarrow> py_error + doc" where
  "calculate_all_metrics_model user_data =
     metrics_of (PNum (weight_kg user_data)) (PNum (height_cm user_data))
       (opt_int (age user_data)) (PStr (gender user_data))
       (PStr (activity_level user_data)) (PStr (goal user_data))
       (opt_num (target_weight_kg user_data))"

definition hash_password :: "(string \<Rightarrow> string \<Rightarrow> string) \<Rightarrow> string \<Rightarrow> string \<Rightarrow> string" where
  "hash_password hashpw salt pw = hashpw pw salt"

definition prepare_user_for_db ::
  "(string \<Rightarrow> string \<Rightarrow> string) \<Rightarrow> string \<Rightarrow> user_register \<Rightarrow> py_error + doc" where
  "prepare_user_for_db hashpw salt user_data =
     and_then (calculate_all_metrics_model user_data) (\<lambda>metrics.
       let password_hash = hash_password hashpw salt (password user_data) in
     and_then (get_item metrics ''bmi'') (\<lambda>bmi.
     and_then (get_item metrics ''bmi_status'') (\<lambda>bmi_status.
     and_then (get_item metrics ''recommended_weight_change'') (\<lambda>recommended_weight_change.
     and_then (get_item metrics ''recommended_daily_calories'') (\<lambda>recommended_daily_calories.
     and_then (get_item metrics ''bmr'') (\<lambda>bmr.
     and_then (get_item metrics ''tdee'') (\<lambda>tdee.
       Inr (map_of
         [(''email'', PStr (email user_data)),
          (''username'', PStr (username user_data)),
          (''password_hash'', PStr password_hash),
          (''first_name'', PStr (first_name user_data)),
          (''last_name'', PStr (last_name user_data)),
          (''date_of_birth'', PTime (date_of_birth user_data)),
          (''gender'', PStr (gender user_data)),
          (''age'', opt_int (age user_data)),
          (''height_cm'', PNum (height_cm user_data)),
          (''weight_kg'', PNum (weight_kg user_data)),
          (''goal'', PStr (goal user_data)),
          (''target_weight_kg'', opt_num (target_weight_kg user_data)),
          (''target_date'', opt_time (target_date user_data)),
          (''activity_level'', PStr (activity_level user_data)),
          (''medical_conditions'', or_empty (medical_conditions user_data)),
          (''allergies'', or_empty (allergies user_data)),
          (''medications'', or_empty (medications user_data)),
          (''dietary_restrictions'', or_empty (dietary_restrictions user_data)),
          (''daily_calorie_goal'', opt_int (daily_calorie_goal user_data)),
          (''bmi'', bmi),
          (''bmi_status'', bmi_status),
          (''recommended_weight_change'', recommended_weight_change),
          (''recommended_daily_calories'', recommended_daily_calories),
          (''bmr'', bmr),
          (''tdee'', tdee),
          (''created_at'', opt_time (created_at user_data)),
          (''updated_at'', opt_time (updated_at user_data)),
          (''is_active'', PBool True)]))))))))"

text \<open>
  An instance of \<open>hashpw\<close> for concrete evaluations. As the modular crypt format of
  bcrypt does, it returns the salt followed by a digest field of 31 characters; the
  digest itself stands in for bcrypt's.
\<close>

definition salt_prefixed :: "string \<Rightarrow> string \<Rightarrow> string" where
  "salt_prefixed pw salt = salt @ take 31 (pw @ replicate 31 CHR ''.'')"

definition registration :: user_register where
  "registration =
     \<lparr>email = ''ann@example.org'', username = ''ann'', password = ''correct horse'',
      first_name = ''Ann'', last_name = ''Lee'', date_of_birth = 730000, gender = ''male'',
      height_cm = 175, weight_kg = 90, goal = ''lose_weight'', target_weight_kg = Some 85,
      target_date = None, activity_level = ''moderate'', gym_type = ''small_gym'',
      day_streak = 0, medical_conditions = Some [], allergies = None, medications = Some [],
      dietary_restrictions = Some [''vegan''], daily_calorie_goal = None, age = Some 25,
      created_at = Some 1000, updated_at = Some 1000\<rparr>"

text \<open>A result with one field of the document left out.\<close>

definition without :: "string \<Rightarrow> py_error + doc \<Rightarrow> py_error + doc" where
  "without k r = map_sum id (\<lambda>d. d(k := None)) r"

section \<open>Properties of the metrics\<close>
















section \<open>Properties of the profile update\<close>

lemma stored_profile_consistent: "consistent stored_profile"
  by code_simp

lemma stored_profile_id: "stored_profile ''_id'' \<noteq> None"
  by code_simp












text \<open>
  C1 on the code: updating only target_weight_kg (90 kg, lose_weight, target 85 to 75)
  triggers no recomputation. The persisted record has the new target 75 and the old
  recommended_daily_calories 2404, while the metrics of the persisted inputs give 2154.
\<close>

theorem update_target_weight_stale:
  "consistent stored_profile
   \<and> \<not> recalculate_metrics [''target_weight_kg'' \<mapsto> PNum 75]
   \<and> result_field (update_user_profile 2000 [''target_weight_kg'' \<mapsto> PNum 75] stored_profile)
        ''target_weight_kg'' = Some (PNum 75)
   \<and> result_field (update_user_profile 2000 [''target_weight_kg'' \<mapsto> PNum 75] stored_profile)
        ''recommended_daily_calories'' = Some (PNum 2404)
   \<and> result_field (calculate_all_metrics (stored_profile(''target_weight_kg'' \<mapsto> PNum 75)))
        ''recommended_daily_calories'' = Some (PNum 2154)"
  by code_simp

text \<open>
  C4 on the code: a supplied target_weight_kg of 0 is falsy, so \<open>target_weight_kg or
  weight_kg\<close> passes the current weight 90 to the calorie goal: the result is 2404
  (TDEE 2904.31 less 500), where the supplied target 0 would give 2154.
\<close>

theorem all_metrics_zero_target:
  "result_field (calculate_all_metrics (stored_profile(''target_weight_kg'' \<mapsto> PNum 0)))
      ''tdee'' = Some (PNum 2904.31)
   \<and> result_field (calculate_all_metrics (stored_profile(''target_weight_kg'' \<mapsto> PNum 0)))
      ''recommended_daily_calories'' = Some (PNum 2404)
   \<and> calculate_calorie_goal 2904.31 ''lose_weight'' 0 90 = 2154
   \<and> calculate_calorie_goal 2904.31 ''lose_weight'' 90 90 = 2404"
  by code_simp

section \<open>Properties of the meal plan assembly\<close>










section \<open>Dependence on the environment\<close>

lemma prepare_without_hash:
  "without ''password_hash'' (prepare_user_for_db hashpw salt u)
     = without ''password_hash'' (prepare_user_for_db hashpw' salt' u)"
  unfolding prepare_user_for_db_def without_def and_then_def Let_def
  by (simp add: fun_eq_iff split: sum.split)

lemma update_without_time:
  "without ''updated_at'' (update_user_profile now updates current_user)
     = without ''updated_at'' (update_user_profile now' updates current_user)"
  unfolding update_user_profile_def without_def and_then_def update_one_def
  by (simp add: fun_eq_iff map_add_def split: sum.split)

lemma plan_without_env:
  "map_sum id (\<lambda>p. p\<lparr>plan_id := [], week_start_date := 0, plan_created_at := 0,
                         plan_updated_at := 0\<rparr>)
       (create_weekly_meal_plan_model env P uid mpd)
   = map_sum id (\<lambda>p. p\<lparr>plan_id := [], week_start_date := 0, plan_created_at := 0,
                         plan_updated_at := 0\<rparr>)
       (create_weekly_meal_plan_model env' P uid mpd)"
  unfolding create_weekly_meal_plan_model_def and_then_def Let_def
  by (simp split: sum.split)

text \<open>
  C9 (as the code has it): the metrics take no input from the environment, and the
  other three components are functions of their inputs and of what they draw from the
  environment, which reaches generated fields only. Two registrations of the same
  validated input give records that agree on every field except password_hash, whose
  salt is drawn afresh; two profile updates agree except on updated_at; two meal plan
  assemblies agree except on the id, week_start_date, created_at and updated_at.
\<close>

theorem environment_only_in_generated_fields:
  "without ''password_hash'' (prepare_user_for_db hashpw salt u)
     = without ''password_hash'' (prepare_user_for_db hashpw' salt' u)
   \<and> without ''updated_at'' (update_user_profile now updates current_user)
     = without ''updated_at'' (update_user_profile now' updates current_user)
   \<and> map_sum id (\<lambda>p. p\<lparr>plan_id := [], week_start_date := 0, plan_created_at := 0,
                           plan_updated_at := 0\<rparr>)
         (create_weekly_meal_plan_model env P uid mpd)
     = map_sum id (\<lambda>p. p\<lparr>plan_id := [], week_start_date := 0, plan_created_at := 0,
                           plan_updated_at := 0\<rparr>)
         (create_weekly_meal_plan_model env' P uid mpd)"
  using prepare_without_hash update_without_time plan_without_env by (intro conjI)

theorem environment_only_in_generated_fields_witness:
  "without ''password_hash''
       (prepare_user_for_db salt_prefixed ''$2b$12$saltsaltsaltsaltsaltA.'' registration)
     = without ''password_hash''
       (prepare_user_for_db salt_prefixed ''$2b$12$saltsaltsaltsaltsaltB.'' registration)
   \<and> without ''updated_at'' (update_user_profile 2000 [''weight_kg'' \<mapsto> PNum 80] stored_profile)
     = without ''updated_at'' (update_user_profile 3000 [''weight_kg'' \<mapsto> PNum 80] stored_profile)"
proof -
  note t = environment_only_in_generated_fields
    [of salt_prefixed "''$2b$12$saltsaltsaltsaltsaltA.''" registration salt_prefixed
        "''$2b$12$saltsaltsaltsaltsaltB.''" 2000 "[''weight_kg'' \<mapsto> PNum 80]"
        stored_profile 3000]
  note a = t [THEN conjunct1] and b = t [THEN conjunct2, THEN conjunct1]
  from a b show ?thesis by (rule conjI)
qed

text \<open>
  C9 as stated fails: the same validated registration hashed under two salts gives two
  records with different password_hash fields.
\<close>

theorem registration_hash_counterexample:
  "result_field (prepare_user_for_db salt_prefixed ''$2b$12$saltsaltsaltsaltsaltA.'' registration)
      ''password_hash''
   \<noteq> result_field (prepare_user_for_db salt_prefixed ''$2b$12$saltsaltsaltsaltsaltB.'' registration)
      ''password_hash''"
  by code_simp

end
